theory Spec2Isabelle
  imports Complex_Main "HOL-Library.AList"
begin

section \<open>Data model\<close>

text \<open>
  Instants and durations are whole numbers of microseconds, the resolution of the
  \<^verbatim>\<open>TIMESTAMP\<close> column the rows are read from and of \<^verbatim>\<open>datetime.timedelta\<close>.
  Sensor readings are real numbers: the statistics are verified in exact arithmetic.
\<close>

type_synonym instant = int
type_synonym duration = int

text \<open>
  One row of \<^verbatim>\<open>raw_sensor_data\<close>. The activity of a row may be null; \<^verbatim>\<open>value_counts\<close>
  leaves null entries out, and \<^verbatim>\<open>majority_label\<close> guards against an empty count.
\<close>

record sample =
  volunteer_id :: int
  activity :: "string option"
  timestamp :: instant
  accel_x :: real
  accel_y :: real
  accel_z :: real
  gyro_x :: real
  gyro_y :: real
  gyro_z :: real

text \<open>
  A data frame: its rows, and whether it has an \<^verbatim>\<open>activity\<close> column at all
  (the only column whose presence the code tests).
\<close>

record frame =
  activity_col :: bool
  rows :: "sample list"

definition empty_frame :: "frame \<Rightarrow> bool" where
  "empty_frame df = (rows df = [])"

section \<open>Window segmentation: \<^verbatim>\<open>window_iter\<close>\<close>

type_synonym window = "instant \<times> instant \<times> frame"

definition w_start :: "window \<Rightarrow> instant" where
  "w_start w = fst w"

definition w_end :: "window \<Rightarrow> instant" where
  "w_end w = fst (snd w)"

definition w_chunk :: "window \<Rightarrow> frame" where
  "w_chunk w = snd (snd w)"

text \<open>
  \<^verbatim>\<open>df_v[(df_v["timestamp"] >= t_start) & (df_v["timestamp"] < t_end)]\<close>
\<close>

definition select_rows :: "frame \<Rightarrow> instant \<Rightarrow> instant \<Rightarrow> frame" where
  "select_rows df_v t_start t_end =
     df_v\<lparr>rows := filter (\<lambda>s. t_start \<le> timestamp s \<and> timestamp s < t_end) (rows df_v)\<rparr>"

text \<open>
  The \<^verbatim>\<open>while\<close> loop of the generator, collecting what it yields. \<open>win\<close> and
  \<open>stride\<close> are the durations \<^verbatim>\<open>timedelta(seconds=win_s)\<close> and
  \<^verbatim>\<open>timedelta(seconds=stride_s)\<close> that the loop adds to \<open>t_start\<close>. The loop need not
  end (nothing checks the stride), so the result is optional: \<open>None\<close> is a generator
  that never stops yielding.
\<close>

partial_function (option) window_loop ::
  "frame \<Rightarrow> duration \<Rightarrow> duration \<Rightarrow> instant \<Rightarrow> instant \<Rightarrow> window list option" where
  "window_loop df_v win stride t_max t_start =
     (if t_start + win \<le> t_max then
        Option.bind (window_loop df_v win stride t_max (t_start + stride))
          (\<lambda>later. Some ((t_start, t_start + win, select_rows df_v t_start (t_start + win)) # later))
      else Some [])"

definition window_iter :: "frame \<Rightarrow> duration \<Rightarrow> duration \<Rightarrow> window list option" where
  "window_iter df_v win stride =
     (if empty_frame df_v then Some []
      else let t_min = Min (set (map timestamp (rows df_v)));
               t_max = Max (set (map timestamp (rows df_v)))
           in window_loop df_v win stride t_max t_min)"

section \<open>Properties of the segmenter\<close>

lemma window_loop_stop:
  "\<not> t_start + win \<le> t_max \<Longrightarrow> window_loop df_v win stride t_max t_start = Some []"
  by (subst window_loop.simps) simp

lemma window_loop_step:
  "t_start + win \<le> t_max \<Longrightarrow>
   window_loop df_v win stride t_max t_start =
     Option.bind (window_loop df_v win stride t_max (t_start + stride))
       (\<lambda>later. Some ((t_start, t_start + win, select_rows df_v t_start (t_start + win)) # later))"
  by (subst window_loop.simps) simp




definition sample_at :: "instant \<Rightarrow> sample" where
  "sample_at t = \<lparr>volunteer_id = 1, activity = Some ''walk'', timestamp = t,
     accel_x = 1, accel_y = 0, accel_z = 0, gyro_x = 0, gyro_y = 0, gyro_z = 0\<rparr>"




definition six_series :: frame where
  "six_series = \<lparr>activity_col = True,
     rows = map sample_at [0, 500000, 1000000, 1500000, 2000000, 2500000]\<rparr>"




lemma six_series_windows:
  "map_option (map (\<lambda>w. (w_start w, w_end w, length (rows (w_chunk w)))))
     (window_iter six_series 2000000 500000)
   = Some [(0, 2000000, 4), (500000, 2500000, 4)]"
  by (simp add: window_iter_def empty_frame_def six_series_def sample_at_def Let_def
      window_loop_step window_loop_stop select_rows_def w_start_def w_end_def w_chunk_def)


section \<open>Feature extraction: \<^verbatim>\<open>_stats_for\<close>, \<^verbatim>\<open>_safe_corr\<close>, \<^verbatim>\<open>featureize\<close>\<close>

text \<open>
  Exceptions are values: \<open>ValueError\<close> is what numpy raises for \<^verbatim>\<open>np.min\<close> of an empty
  array and for \<^verbatim>\<open>np.corrcoef\<close> of two arrays of different sizes.
\<close>

datatype error = ValueError

fun bind_err :: "error + 'a \<Rightarrow> ('a \<Rightarrow> error + 'b) \<Rightarrow> error + 'b" where
  "bind_err (Inl e) f = Inl e"
| "bind_err (Inr x) f = f x"

text \<open>A feature dictionary, in insertion order; \<^verbatim>\<open>out[k] = v\<close> is \<^const>\<open>AList.update\<close>.\<close>

type_synonym features = "(string \<times> real) list"

definition np_mean :: "real list \<Rightarrow> real" where
  "np_mean arr = sum_list arr / real (length arr)"

text \<open>\<^verbatim>\<open>np.var(arr, ddof)\<close> and \<^verbatim>\<open>np.std(arr, ddof)\<close>.\<close>

definition np_var :: "nat \<Rightarrow> real list \<Rightarrow> real" where
  "np_var ddof arr =
     (\<Sum>x\<leftarrow>arr. (x - np_mean arr)\<^sup>2) / (real (length arr) - real ddof)"

definition np_std :: "nat \<Rightarrow> real list \<Rightarrow> real" where
  "np_std ddof arr = sqrt (np_var ddof arr)"

text \<open>
  \<^verbatim>\<open>np.percentile(arr, q)\<close> with the default linear interpolation: the value at the
  virtual index \<open>q / 100 * (n - 1)\<close> of the sorted array.
\<close>

definition np_percentile :: "real list \<Rightarrow> real \<Rightarrow> real" where
  "np_percentile arr q =
     (let srt = sort arr;
          n = length arr;
          pos = q / 100 * real (n - 1);
          lo = nat \<lfloor>pos\<rfloor>;
          hi = min (lo + 1) (n - 1)
      in srt ! lo + (srt ! hi - srt ! lo) * (pos - real lo))"

text \<open>\<^verbatim>\<open>np.min\<close> and \<^verbatim>\<open>np.max\<close> of a non-empty array.\<close>

definition np_min :: "real list \<Rightarrow> real" where
  "np_min arr = Min (set arr)"

definition np_max :: "real list \<Rightarrow> real" where
  "np_max arr = Max (set arr)"

text \<open>
  \<^verbatim>\<open>_stats_for(name, arr, out)\<close>. On an empty array \<^verbatim>\<open>np.min\<close> raises, and the
  dictionary is lost with the exception.
\<close>

definition stats_for :: "string \<Rightarrow> real list \<Rightarrow> features \<Rightarrow> error + features" where
  "stats_for name arr out =
     (if arr = [] then Inl ValueError
      else
        let out = AList.update (name @ ''_mean'') (np_mean arr) out;
            out = AList.update (name @ ''_std'') (if 1 < length arr then np_std 1 arr else 0) out;
            out = AList.update (name @ ''_min'') (np_min arr) out;
            out = AList.update (name @ ''_max'') (np_max arr) out;
            out = AList.update (name @ ''_p25'') (np_percentile arr 25) out;
            out = AList.update (name @ ''_p50'') (np_percentile arr 50) out;
            out = AList.update (name @ ''_p75'') (np_percentile arr 75) out;
            out = AList.update (name @ ''_energy'') (np_mean (map (\<lambda>x. x\<^sup>2) arr)) out
        in Inr out)"

text \<open>
  \<^verbatim>\<open>np.corrcoef(a, b)[0, 1]\<close>: the covariance (\<^verbatim>\<open>ddof=1\<close>) divided by both standard
  deviations, clipped to \<open>[-1, 1]\<close>.
\<close>

definition np_cov :: "real list \<Rightarrow> real list \<Rightarrow> real" where
  "np_cov a b =
     (\<Sum>(x, y)\<leftarrow>zip a b. (x - np_mean a) * (y - np_mean b)) / (real (length a) - 1)"

definition corrcoef :: "real list \<Rightarrow> real list \<Rightarrow> error + real" where
  "corrcoef a b =
     (if length a \<noteq> length b then Inl ValueError
      else Inr (max (- 1) (min 1 (np_cov a b / np_std 1 a / np_std 1 b))))"

definition safe_corr :: "real list \<Rightarrow> real list \<Rightarrow> error + real" where
  "safe_corr a b =
     (if 2 < length a \<and> 2 < length b \<and> 0 < np_std 0 a \<and> 0 < np_std 0 b
      then corrcoef a b
      else Inr 0)"

text \<open>The loop \<^verbatim>\<open>for name, arr in series.items(): _stats_for(name, arr, out)\<close>.\<close>

fun stats_all :: "(string \<times> real list) list \<Rightarrow> features \<Rightarrow> error + features" where
  "stats_all [] out = Inr out"
| "stats_all ((name, arr) # rest) out = bind_err (stats_for name arr out) (stats_all rest)"

definition magnitude :: "real \<Rightarrow> real \<Rightarrow> real \<Rightarrow> real" where
  "magnitude x y z = sqrt (x\<^sup>2 + y\<^sup>2 + z\<^sup>2)"

definition series_of :: "frame \<Rightarrow> (string \<times> real list) list" where
  "series_of chunk =
     [(''accel_x'', map accel_x (rows chunk)),
      (''accel_y'', map accel_y (rows chunk)),
      (''accel_z'', map accel_z (rows chunk)),
      (''gyro_x'', map gyro_x (rows chunk)),
      (''gyro_y'', map gyro_y (rows chunk)),
      (''gyro_z'', map gyro_z (rows chunk)),
      (''acc_mag'', map (\<lambda>s. magnitude (accel_x s) (accel_y s) (accel_z s)) (rows chunk)),
      (''gyro_mag'', map (\<lambda>s. magnitude (gyro_x s) (gyro_y s) (gyro_z s)) (rows chunk))]"

definition featureize :: "frame \<Rightarrow> error + features" where
  "featureize chunk =
     (if length (rows chunk) < 5 then Inr []
      else
        bind_err (stats_all (series_of chunk) []) (\<lambda>out.
        bind_err (safe_corr (map accel_x (rows chunk)) (map accel_y (rows chunk))) (\<lambda>c_xy.
        bind_err (safe_corr (map accel_x (rows chunk)) (map accel_z (rows chunk))) (\<lambda>c_xz.
        bind_err (safe_corr (map accel_y (rows chunk)) (map accel_z (rows chunk))) (\<lambda>c_yz.
          Inr (AList.update ''corr_accel_y_accel_z'' c_yz
              (AList.update ''corr_accel_x_accel_z'' c_xz
              (AList.update ''corr_accel_x_accel_y'' c_xy out))))))))"

text \<open>The key set the extractor is configured with.\<close>

definition channels :: "string list" where
  "channels = map fst (series_of \<lparr>activity_col = True, rows = []\<rparr>)"

definition statistics :: "string list" where
  "statistics = [''mean'', ''std'', ''min'', ''max'', ''p25'', ''p50'', ''p75'', ''energy'']"

definition corr_pairs :: "(string \<times> string) list" where
  "corr_pairs = [(''accel_x'', ''accel_y''), (''accel_x'', ''accel_z''), (''accel_y'', ''accel_z'')]"

definition feature_keys :: "string list" where
  "feature_keys =
     concat (map (\<lambda>c. map (\<lambda>s. c @ ''_'' @ s) statistics) channels) @
     map (\<lambda>(a, b). ''corr_'' @ a @ ''_'' @ b) corr_pairs"

definition keys_of :: "error + features \<Rightarrow> string list" where
  "keys_of r = (case r of Inl e \<Rightarrow> [] | Inr out \<Rightarrow> map fst out)"

definition value_of :: "error + features \<Rightarrow> string \<Rightarrow> real option" where
  "value_of r k = (case r of Inl e \<Rightarrow> None | Inr out \<Rightarrow> map_of out k)"

section \<open>Properties of the feature extractor\<close>

definition stats_entries :: "string \<Rightarrow> real list \<Rightarrow> features" where
  "stats_entries name arr =
     [(name @ ''_mean'', np_mean arr),
      (name @ ''_std'', if 1 < length arr then np_std 1 arr else 0),
      (name @ ''_min'', np_min arr),
      (name @ ''_max'', np_max arr),
      (name @ ''_p25'', np_percentile arr 25),
      (name @ ''_p50'', np_percentile arr 50),
      (name @ ''_p75'', np_percentile arr 75),
      (name @ ''_energy'', np_mean (map (\<lambda>x. x\<^sup>2) arr))]"

lemma update_fresh: "k \<notin> fst ` set al \<Longrightarrow> AList.update k v al = al @ [(k, v)]"
  by (induction al) auto


lemma update_append_fresh:
  "k \<notin> fst ` set out \<Longrightarrow> AList.update k v (out @ es) = out @ AList.update k v es"
  by (induction out) auto

lemma stats_for_fresh:
  assumes "arr \<noteq> []" and fresh: "\<And>sfx. name @ CHR ''_'' # sfx \<notin> fst ` set out"
  shows "stats_for name arr out = Inr (out @ stats_entries name arr)"
proof -
  have start: "AList.update k v out = out @ AList.update k v []" if "k \<notin> fst ` set out" for k v
    using update_append_fresh [OF that, of v "[]"] by simp
  show ?thesis
    using assms(1)
    by (simp add: stats_for_def stats_entries_def Let_def start fresh update_append_fresh)
qed

definition corr_value :: "real list \<Rightarrow> real list \<Rightarrow> real" where
  "corr_value a b =
     (if 2 < length a \<and> 2 < length b \<and> 0 < np_std 0 a \<and> 0 < np_std 0 b
      then max (- 1) (min 1 (np_cov a b / np_std 1 a / np_std 1 b))
      else 0)"

lemma safe_corr_same_length:
  "length a = length b \<Longrightarrow> safe_corr a b = Inr (corr_value a b)"
  by (simp add: safe_corr_def corrcoef_def corr_value_def)

definition corr_entries :: "frame \<Rightarrow> features" where
  "corr_entries chunk =
     [(''corr_accel_x_accel_y'', corr_value (map accel_x (rows chunk)) (map accel_y (rows chunk))),
      (''corr_accel_x_accel_z'', corr_value (map accel_x (rows chunk)) (map accel_z (rows chunk))),
      (''corr_accel_y_accel_z'', corr_value (map accel_y (rows chunk)) (map accel_z (rows chunk)))]"

definition all_stats :: "frame \<Rightarrow> features" where
  "all_stats chunk = concat (map (\<lambda>(name, arr). stats_entries name arr) (series_of chunk))"

lemma keys_stats_entries:
  "map fst (stats_entries name arr) = map (\<lambda>s. name @ ''_'' @ s) statistics"
  by (simp add: stats_entries_def statistics_def)

lemma stats_all_series:
  assumes "rows chunk \<noteq> []"
  shows "stats_all (series_of chunk) [] = Inr (all_stats chunk)"
  using assms
  by (simp add: series_of_def all_stats_def stats_for_fresh image_Un image_image
      keys_stats_entries statistics_def flip: set_map)

lemma keys_all_stats:
  "map fst (all_stats chunk) = concat (map (\<lambda>c. map (\<lambda>s. c @ ''_'' @ s) statistics) channels)"
  by (simp add: all_stats_def series_of_def channels_def keys_stats_entries)

lemma featureize_accepts:
  assumes "5 \<le> length (rows chunk)"
  shows "featureize chunk = Inr (all_stats chunk @ corr_entries chunk)"
proof -
  from assms have ne: "rows chunk \<noteq> []" by auto
  have fresh: "k \<notin> fst ` set (all_stats chunk)" if "take 5 k = ''corr_''" for k
    using that unfolding set_map [symmetric] keys_all_stats
    by (auto simp: channels_def series_of_def statistics_def)
  have start: "AList.update k v (all_stats chunk) = all_stats chunk @ AList.update k v []"
    if "take 5 k = ''corr_''" for k v
    using update_append_fresh [OF fresh [OF that], of v "[]"] by simp
  show ?thesis
    using assms
    by (simp add: featureize_def stats_all_series [OF ne] safe_corr_same_length
        update_append_fresh fresh start corr_entries_def)
qed

lemma keys_featureize:
  "5 \<le> length (rows chunk) \<Longrightarrow> keys_of (featureize chunk) = feature_keys"
  by (simp add: featureize_accepts keys_of_def keys_all_stats feature_keys_def
      corr_entries_def corr_pairs_def)

lemma feature_keys_distinct: "distinct feature_keys"
  by (simp add: feature_keys_def channels_def series_of_def statistics_def corr_pairs_def)

lemma feature_keys_length: "length feature_keys = 67"
  by (simp add: feature_keys_def channels_def series_of_def statistics_def corr_pairs_def)


definition five_samples :: frame where
  "five_samples = \<lparr>activity_col = True,
     rows = map sample_at [0, 500000, 1000000, 1500000, 2000000]\<rparr>"

theorem featureize_keys:
  "(featureize chunk = Inr [] \<longleftrightarrow> length (rows chunk) < 5) \<and>
   (5 \<le> length (rows chunk) \<longrightarrow>
      (\<exists>out. featureize chunk = Inr out \<and> length out = 67 \<and> distinct (map fst out) \<and>
         set (map fst out) =
           {c @ ''_'' @ s | c s. c \<in> set channels \<and> s \<in> set statistics} \<union>
           {''corr_'' @ a @ ''_'' @ b | a b. (a, b) \<in> set corr_pairs})) \<and>
   channels = [''accel_x'', ''accel_y'', ''accel_z'', ''gyro_x'', ''gyro_y'', ''gyro_z'',
               ''acc_mag'', ''gyro_mag''] \<and>
   statistics = [''mean'', ''std'', ''min'', ''max'', ''p25'', ''p50'', ''p75'', ''energy'']"
proof -
  have keys_set: "set feature_keys =
      {c @ ''_'' @ s | c s. c \<in> set channels \<and> s \<in> set statistics} \<union>
      {''corr_'' @ a @ ''_'' @ b | a b. (a, b) \<in> set corr_pairs}"
    unfolding feature_keys_def by (auto simp del: append.simps)
  have accepted: "\<exists>out. featureize chunk = Inr out \<and> length out = 67 \<and> distinct (map fst out) \<and>
         set (map fst out) =
           {c @ ''_'' @ s | c s. c \<in> set channels \<and> s \<in> set statistics} \<union>
           {''corr_'' @ a @ ''_'' @ b | a b. (a, b) \<in> set corr_pairs}"
    if big: "5 \<le> length (rows chunk)"
  proof -
    define out where "out = all_stats chunk @ corr_entries chunk"
    from keys_featureize [OF big] featureize_accepts [OF big]
    have feat: "featureize chunk = Inr out" and keys: "map fst out = feature_keys"
      by (simp_all add: keys_of_def out_def)
    from keys have "length out = length feature_keys"
      by (metis length_map)
    with feature_keys_length have len: "length out = 67" by simp
    from keys feature_keys_distinct have dist: "distinct (map fst out)" by simp
    from keys keys_set have "set (map fst out) =
        {c @ ''_'' @ s | c s. c \<in> set channels \<and> s \<in> set statistics} \<union>
        {''corr_'' @ a @ ''_'' @ b | a b. (a, b) \<in> set corr_pairs}"
      by (simp only:)
    with feat len dist show ?thesis by blast
  qed
  have rejected: "featureize chunk = Inr [] \<longleftrightarrow> length (rows chunk) < 5"
  proof (cases "length (rows chunk) < 5")
    case True
    then show ?thesis by (simp add: featureize_def)
  next
    case False
    then have "5 \<le> length (rows chunk)" by simp
    from accepted [OF this] False show ?thesis by auto
  qed
  from accepted rejected show ?thesis
    by (simp add: channels_def series_of_def statistics_def)
qed

theorem featureize_keys_witness:
  "5 \<le> length (rows five_samples) \<and>
   (\<exists>out. featureize five_samples = Inr out \<and> length out = 67 \<and> distinct (map fst out) \<and>
      set (map fst out) =
        {c @ ''_'' @ s | c s. c \<in> set channels \<and> s \<in> set statistics} \<union>
        {''corr_'' @ a @ ''_'' @ b | a b. (a, b) \<in> set corr_pairs})"
proof -
  have big: "5 \<le> length (rows five_samples)" by (simp add: five_samples_def)
  with featureize_keys [of five_samples] show ?thesis by blast
qed

theorem featureize_keys_counterexample:
  "''accel_magnitude_mean'' \<notin> set (keys_of (featureize five_samples)) \<and>
   ''gyro_magnitude_mean'' \<notin> set (keys_of (featureize five_samples)) \<and>
   ''acc_mag_mean'' \<in> set (keys_of (featureize five_samples)) \<and>
   ''gyro_mag_mean'' \<in> set (keys_of (featureize five_samples))"
proof -
  have "5 \<le> length (rows five_samples)" by (simp add: five_samples_def)
  from keys_featureize [OF this] show ?thesis
    by (simp add: feature_keys_def channels_def series_of_def statistics_def corr_pairs_def)
qed


subsection \<open>Energy of the magnitude channels\<close>

lemma energy_magnitude:
  "np_mean (map (\<lambda>s. (magnitude (f s) (g s) (h s))\<^sup>2) rs) =
   np_mean (map (\<lambda>s. (f s)\<^sup>2) rs) + np_mean (map (\<lambda>s. (g s)\<^sup>2) rs) +
   np_mean (map (\<lambda>s. (h s)\<^sup>2) rs)"
proof -
  have sq: "(magnitude x y z)\<^sup>2 = x\<^sup>2 + y\<^sup>2 + z\<^sup>2" for x y z
    by (simp add: magnitude_def)
  have "(\<Sum>s\<leftarrow>rs. (magnitude (f s) (g s) (h s))\<^sup>2) =
        (\<Sum>s\<leftarrow>rs. (f s)\<^sup>2) + (\<Sum>s\<leftarrow>rs. (g s)\<^sup>2) + (\<Sum>s\<leftarrow>rs. (h s)\<^sup>2)"
    by (induction rs) (simp_all add: sq)
  then show ?thesis
    by (simp add: np_mean_def add_divide_distrib)
qed

lemma value_of_accepted:
  "5 \<le> length (rows chunk) \<Longrightarrow>
   value_of (featureize chunk) k = map_of (all_stats chunk @ corr_entries chunk) k"
  by (simp add: featureize_accepts value_of_def)

lemma lookup_energy:
  assumes "5 \<le> length (rows chunk)"
  shows "value_of (featureize chunk) ''accel_x_energy'' =
           Some (np_mean (map (\<lambda>s. (accel_x s)\<^sup>2) (rows chunk)))"
    and "value_of (featureize chunk) ''accel_y_energy'' =
           Some (np_mean (map (\<lambda>s. (accel_y s)\<^sup>2) (rows chunk)))"
    and "value_of (featureize chunk) ''accel_z_energy'' =
           Some (np_mean (map (\<lambda>s. (accel_z s)\<^sup>2) (rows chunk)))"
    and "value_of (featureize chunk) ''acc_mag_energy'' =
           Some (np_mean (map (\<lambda>s. (magnitude (accel_x s) (accel_y s) (accel_z s))\<^sup>2) (rows chunk)))"
    and "value_of (featureize chunk) ''gyro_x_energy'' =
           Some (np_mean (map (\<lambda>s. (gyro_x s)\<^sup>2) (rows chunk)))"
    and "value_of (featureize chunk) ''gyro_y_energy'' =
           Some (np_mean (map (\<lambda>s. (gyro_y s)\<^sup>2) (rows chunk)))"
    and "value_of (featureize chunk) ''gyro_z_energy'' =
           Some (np_mean (map (\<lambda>s. (gyro_z s)\<^sup>2) (rows chunk)))"
    and "value_of (featureize chunk) ''gyro_mag_energy'' =
           Some (np_mean (map (\<lambda>s. (magnitude (gyro_x s) (gyro_y s) (gyro_z s))\<^sup>2) (rows chunk)))"
  by (simp_all add: value_of_accepted [OF assms] all_stats_def series_of_def stats_entries_def
      comp_def)


text \<open>
  C10: for an accepted subset the energy of the accelerometer magnitude is the sum of the
  energies of the three accelerometer axes, and likewise for the gyroscope.
\<close>

theorem magnitude_energy_is_sum:
  assumes "5 \<le> length (rows chunk)"
  shows "\<exists>ax ay az am gx gy gz gm.
           value_of (featureize chunk) ''accel_x_energy'' = Some ax \<and>
           value_of (featureize chunk) ''accel_y_energy'' = Some ay \<and>
           value_of (featureize chunk) ''accel_z_energy'' = Some az \<and>
           value_of (featureize chunk) ''acc_mag_energy'' = Some am \<and>
           value_of (featureize chunk) ''gyro_x_energy'' = Some gx \<and>
           value_of (featureize chunk) ''gyro_y_energy'' = Some gy \<and>
           value_of (featureize chunk) ''gyro_z_energy'' = Some gz \<and>
           value_of (featureize chunk) ''gyro_mag_energy'' = Some gm \<and>
           am = ax + ay + az \<and> gm = gx + gy + gz"
  by (simp only: lookup_energy [OF assms] energy_magnitude) simp

theorem magnitude_energy_is_sum_witness:
  "5 \<le> length (rows five_samples) \<and>
   (\<exists>ax ay az am gx gy gz gm.
           value_of (featureize five_samples) ''accel_x_energy'' = Some ax \<and>
           value_of (featureize five_samples) ''accel_y_energy'' = Some ay \<and>
           value_of (featureize five_samples) ''accel_z_energy'' = Some az \<and>
           value_of (featureize five_samples) ''acc_mag_energy'' = Some am \<and>
           value_of (featureize five_samples) ''gyro_x_energy'' = Some gx \<and>
           value_of (featureize five_samples) ''gyro_y_energy'' = Some gy \<and>
           value_of (featureize five_samples) ''gyro_z_energy'' = Some gz \<and>
           value_of (featureize five_samples) ''gyro_mag_energy'' = Some gm \<and>
           am = ax + ay + az \<and> gm = gx + gy + gz)"
proof -
  have big: "5 \<le> length (rows five_samples)" by (simp add: five_samples_def)
  with magnitude_energy_is_sum [OF big] show ?thesis by blast
qed


subsection \<open>Correlation guard and constant channels\<close>





lemma np_std_sample_pos:
  assumes "2 < length a" and "0 < np_std 0 a"
  shows "0 < np_std 1 a"
proof -
  let ?S = "\<Sum>x\<leftarrow>a. (x - np_mean a)\<^sup>2"
  from assms(2) have "0 < ?S / real (length a)"
    by (simp add: np_std_def np_var_def)
  with assms(1) have "0 < ?S"
    by (simp add: zero_less_divide_iff)
  with assms(1) have "0 < ?S / (real (length a) - 1)"
    by simp
  then show ?thesis by (simp add: np_std_def np_var_def)
qed

lemma safe_corr_defined:
  assumes "safe_corr a b \<noteq> Inr 0"
  shows "0 < np_std 1 a \<and> 0 < np_std 1 b"
proof -
  from assms have "2 < length a \<and> 2 < length b \<and> 0 < np_std 0 a \<and> 0 < np_std 0 b"
    by (auto simp: safe_corr_def split: if_splits)
  then show ?thesis using np_std_sample_pos [of a] np_std_sample_pos [of b] by blast
qed

lemma stats_for_std:
  "arr \<noteq> [] \<Longrightarrow>
   value_of (stats_for name arr out) (name @ ''_std'') =
     Some (if 1 < length arr then np_std 1 arr else 0)"
  by (simp add: stats_for_def value_of_def Let_def update_conv')













end
